theory Spec2Isabelle
  imports Complex_Main
begin

section \<open>JavaScript values shared by the storefront models\<close>

text \<open>
  A JavaScript number as the storefront scripts produce it: \<open>NaN\<close>, an infinity, or a
  finite value (kept as the exact rational the decimal text denotes).
\<close>

datatype jsnum = NaN | PosInf | NegInf | Fin rat

text \<open>A thrown JavaScript exception with its message.\<close>

datatype js_error = Error string | TypeError string | SyntaxError string

text \<open>\<open>String(n)\<close> for a non-negative integer: its decimal digits.\<close>

definition digit_char :: "nat \<Rightarrow> char" where
  "digit_char d = char_of (48 + d)"

fun String :: "nat \<Rightarrow> string" where
  "String n = (if n < 10 then [digit_char n] else String (n div 10) @ [digit_char (n mod 10)])"

declare String.simps [simp del]

text \<open>\<open>s.padStart(targetLength, c)\<close> for a one-character pad string.\<close>

definition padStart :: "nat \<Rightarrow> char \<Rightarrow> string \<Rightarrow> string" where
  "padStart targetLength c s = replicate (targetLength - length s) c @ s"

text \<open>\<open>Object.fromEntries\<close>: the pairs are stored in order, a later key overwriting an earlier one.\<close>

definition fromEntries :: "('k \<times> 'v) list \<Rightarrow> ('k \<rightharpoonup> 'v)" where
  "fromEntries ps = foldl (\<lambda>m (k, v). m(k \<mapsto> v)) Map.empty ps"

text \<open>
  White space as \<open>String.prototype.trim\<close> strips it, for the ASCII characters: space, tab,
  line feed, vertical tab, form feed and carriage return.
\<close>

definition is_space :: "char \<Rightarrow> bool" where
  "is_space c = (c \<in> set [CHR '' '', CHR 0x09, CHR 0x0A, CHR 0x0B, CHR 0x0C, CHR 0x0D])"

definition trim :: "string \<Rightarrow> string" where
  "trim s = rev (dropWhile is_space (rev (dropWhile is_space s)))"

section \<open>Customer map generator (FrontEnd/scripts/buildCustomerMap.js)\<close>

definition adjectives :: "string list" where
  "adjectives = [''citrus'', ''amber'', ''sunny'', ''fresh'', ''mellow'',
                 ''zesty'', ''crisp'', ''breezy'', ''velvet'', ''brisk'']"

definition nouns :: "string list" where
  "nouns = [''otter'', ''sparrow'', ''baker'', ''sprout'', ''harvest'',
            ''grove'', ''market'', ''orchard'', ''ridge'', ''meadow'']"

text \<open>The two nested loops that fill \<open>randomNamePool\<close>, adjectives outermost.\<close>

definition randomNamePool :: "string list" where
  "randomNamePool =
     concat (map (\<lambda>i. map (\<lambda>j. adjectives ! i @ ''-'' @ nouns ! j @ ''-'' @
                                 padStart 2 (CHR ''0'') (String (j + 1)))
                           [0..<length nouns])
                 [0..<length adjectives])"

record customer =
  id_c :: string
  username :: string

text \<open>
  \<open>ids\<close> is the array of distinct customer ids read from the first column of
  ClickStream.csv (deduplicated through a \<open>Set\<close>, then sorted). The script throws when
  there are more ids than pool names; otherwise the customer at index \<open>idx\<close> gets
  \<open>C\<close> followed by \<open>idx + 1\<close> padded to three digits, and the pool name at \<open>idx\<close>.
\<close>

definition customers :: "string list \<Rightarrow> js_error + customer list" where
  "customers ids =
     (if length ids > length randomNamePool then Inl (Error ''Not enough generated usernames for all customer ids'')
      else Inr (map (\<lambda>idx. \<lparr>id_c = ''C'' @ padStart 3 (CHR ''0'') (String (idx + 1)),
                             username = randomNamePool ! idx\<rparr>)
                    [0..<length ids]))"

definition usernameToCustomerId :: "customer list \<Rightarrow> (string \<rightharpoonup> string)" where
  "usernameToCustomerId cs = fromEntries (map (\<lambda>c. (username c, id_c c)) cs)"

definition customerIdToUsername :: "customer list \<Rightarrow> (string \<rightharpoonup> string)" where
  "customerIdToUsername cs = fromEntries (map (\<lambda>c. (id_c c, username c)) cs)"

text \<open>The mapping generated for a click stream with the two customer ids 11 and 42.\<close>

definition two_customers :: "customer list" where
  "two_customers = [\<lparr>id_c = ''C001'', username = ''citrus-otter-01''\<rparr>,
                    \<lparr>id_c = ''C002'', username = ''citrus-sparrow-02''\<rparr>]"

section \<open>Storefront basket (FrontEnd/src/context/BasketContext.jsx)\<close>

text \<open>
  A catalogue product as the storefront holds it (the objects written by
  scripts/csvToProducts.js). Text fields that the generator copies straight from a
  CSV column are \<open>None\<close> when the column is absent (JavaScript \<open>undefined\<close>).
  \<open>id_p\<close> and \<open>image_p\<close> are the keys \<open>id\<close> and \<open>image\<close>.
\<close>

record product =
  id_p :: string
  name :: "string option"
  description :: "string option"
  brand :: "string option"
  category :: "string option"
  subCategory :: "string option"
  price :: jsnum
  image_p :: string
  stock :: "int option"

text \<open>
  A basket line \<open>{ product, quantity }\<close> (\<open>product_e\<close> is the key \<open>product\<close>).
  Quantities are the integers the pages produce (1 on add, the shown quantity plus or
  minus 1 on the basket page).
\<close>

record entry =
  product_e :: product
  quantity :: int

text \<open>
  The state \<open>{ items: {} }\<close>: an object keyed by product id. The ids are catalogue
  ids; the property names every JavaScript object inherits (such as \<open>constructor\<close>)
  are not among them, so a lookup finds an entry or nothing.
\<close>

record basket_state =
  items :: "string \<rightharpoonup> entry"

text \<open>
  The actions \<open>add\<close> (with its quantity, 1 by default), \<open>update\<close> (constructor
  \<open>Update_a\<close>), \<open>clear\<close>, and any other action type.
\<close>

datatype action =
    Add product int
  | Update_a string int
  | Clear
  | Other

definition initialState :: basket_state where
  "initialState = \<lparr>items = Map.empty\<rparr>"

fun reducer :: "basket_state \<Rightarrow> action \<Rightarrow> basket_state" where
  "reducer state (Add p q) =
     (let existing = (case items state (id_p p) of
                        Some e \<Rightarrow> e
                      | None \<Rightarrow> \<lparr>product_e = p, quantity = 0\<rparr>);
          nextQty = quantity existing + q
      in state\<lparr>items := (items state)(id_p p \<mapsto> \<lparr>product_e = p, quantity = nextQty\<rparr>)\<rparr>)"
| "reducer state (Update_a pid q) =
     (if q \<le> 0 then state\<lparr>items := (items state)(pid := None)\<rparr>
      else (case items state pid of
              None \<Rightarrow> state
            | Some current \<Rightarrow>
                state\<lparr>items := (items state)(pid \<mapsto> current\<lparr>quantity := q\<rparr>)\<rparr>))"
| "reducer state Clear = initialState"
| "reducer state Other = state"

text \<open>BasketPage: \<open>handleQuantity(id, qty)\<close> dispatches an update clamped at 0.\<close>

definition handleQuantity :: "basket_state \<Rightarrow> string \<Rightarrow> int \<Rightarrow> basket_state" where
  "handleQuantity state pid qty = reducer state (Update_a pid (max 0 qty))"

text \<open>A basket holding two lines, used to instantiate the theorems below.\<close>

definition apple :: product where
  "apple = \<lparr>id_p = ''apple'', name = Some ''Apple'', description = None, brand = None,
     category = Some ''produce'', subCategory = None, price = Fin (1 / 2), image_p = '''',
     stock = Some 10\<rparr>"

definition bread :: product where
  "bread = \<lparr>id_p = ''bread'', name = Some ''Bread'', description = None, brand = None,
     category = Some ''bakery'', subCategory = None, price = Fin 2, image_p = '''',
     stock = Some 4\<rparr>"

definition basket2 :: basket_state where
  "basket2 = \<lparr>items = [''apple'' \<mapsto> \<lparr>product_e = apple, quantity = 2\<rparr>,
                       ''bread'' \<mapsto> \<lparr>product_e = bread, quantity = 1\<rparr>]\<rparr>"

section \<open>Interaction tracking (src/context/InteractionContext.jsx, services/api.js)\<close>

text \<open>
  The object a page hands to \<open>trackInteraction\<close>. A key the page does not write is
  \<open>None\<close>. \<open>items_e\<close> is the purchase event's list of
  \<open>{ productId, quantity, price }\<close>; \<open>type_e\<close>, \<open>username_e\<close>, \<open>total_e\<close> and
  \<open>items_e\<close> are the keys \<open>type\<close>, \<open>username\<close>, \<open>total\<close> and \<open>items\<close>.
\<close>

record event =
  type_e :: "string option"
  eventType :: "string option"
  productId :: "string option"
  source :: "string option"
  query :: "string option"
  username_e :: "string option"
  total_e :: "jsnum option"
  items_e :: "(string \<times> int \<times> jsnum) list option"

text \<open>
  A history entry: the event with the keys \<open>user\<close> (field \<open>user_e\<close>; absent in the
  entries that come with a profile) and \<open>timestamp\<close>, in milliseconds.
\<close>

record interaction = event +
  user_e :: "string option"
  timestamp :: int

text \<open>
  The profile \<open>fetchUserProfile\<close> returns; \<open>name_pr\<close> and \<open>username_pr\<close> are the keys
  \<open>name\<close> and \<open>username\<close>.
\<close>

record profile =
  email :: string
  name_pr :: string
  customerId :: string
  username_pr :: string
  previousInteractions :: "interaction list"

definition no_event :: event where
  "no_event = \<lparr>type_e = None, eventType = None, productId = None, source = None,
               query = None, username_e = None, total_e = None, items_e = None\<rparr>"

text \<open>
  \<open>fetchUserProfile(identifier)\<close>, given the two generated lookup objects and the value
  of \<open>Date.now()\<close>. It throws when the username has no (non-empty) customer id.
\<close>

definition fetchUserProfile ::
  "(string \<rightharpoonup> string) \<Rightarrow> (string \<rightharpoonup> string) \<Rightarrow> int \<Rightarrow> string \<Rightarrow> js_error + profile" where
  "fetchUserProfile u2c c2u now identifier =
     (let uname = (if identifier = [] then ''guest'' else identifier) in
      case u2c uname of
        None \<Rightarrow> Inl (Error ''User not found'')
      | Some cid \<Rightarrow>
          if cid = [] then Inl (Error ''User not found'')
          else Inr \<lparr>email = uname @ ''@example.com'',
                    name_pr = uname,
                    customerId = cid,
                    username_pr = (case c2u cid of
                                     None \<Rightarrow> uname
                                   | Some u \<Rightarrow> if u = [] then uname else u),
                    previousInteractions =
                      [event.extend (no_event\<lparr>type_e := Some ''view'', productId := Some ''sourdough''\<rparr>)
                         (interaction.fields None (now - 86400000)),
                       event.extend (no_event\<lparr>type_e := Some ''search'', query := Some ''berries''\<rparr>)
                         (interaction.fields None (now - 43200000))]\<rparr>)"

text \<open>The provider's state: \<open>user\<close> and \<open>interactions\<close>.\<close>

record ictx =
  user :: "profile option"
  interactions :: "interaction list"

definition initial_ictx :: ictx where
  "initial_ictx = \<lparr>user = None, interactions = []\<rparr>"

definition login ::
  "(string \<rightharpoonup> string) \<Rightarrow> (string \<rightharpoonup> string) \<Rightarrow> int \<Rightarrow> ictx \<Rightarrow> string \<Rightarrow> js_error + ictx" where
  "login u2c c2u now st uname =
     (case fetchUserProfile u2c c2u now uname of
        Inl e \<Rightarrow> Inl e
      | Inr p \<Rightarrow> Inr \<lparr>user = Some p, interactions = previousInteractions p\<rparr>)"

definition logout :: "ictx \<Rightarrow> ictx" where
  "logout st = \<lparr>user = None, interactions = []\<rparr>"

text \<open>
  \<open>trackInteraction(event)\<close>: the payload is the event with \<open>user\<close> and \<open>timestamp\<close>
  set; it is put in front of the history, which is cut to 50 entries, and then sent to
  the API stub (a failure of the stub is caught and logged). The function is a
  \<open>useCallback\<close> closure over \<open>user\<close>: it writes the user of the render that created it,
  \<open>captured\<close> below, which is the user of the state in which the calling page last
  rendered and not always the user of the state at the call (the history is updated
  through \<open>setInteractions((prev) => ...)\<close>, so that one is the current history). The
  result is the new state and the payload sent.
\<close>

definition payload :: "profile option \<Rightarrow> int \<Rightarrow> event \<Rightarrow> interaction" where
  "payload u now ev =
     event.extend ev
       (interaction.fields (Some (case u of Some p \<Rightarrow> email p | None \<Rightarrow> ''anonymous'')) now)"

definition trackInteraction ::
  "profile option \<Rightarrow> ictx \<Rightarrow> int \<Rightarrow> event \<Rightarrow> ictx \<times> interaction" where
  "trackInteraction captured st now ev =
     (let p = payload captured now ev
      in (st\<lparr>interactions := take 50 (p # interactions st)\<rparr>, p))"

text \<open>\<open>lastInteraction: interactions[0] ?? null\<close>.\<close>

definition lastInteraction :: "ictx \<Rightarrow> interaction option" where
  "lastInteraction st = (case interactions st of [] \<Rightarrow> None | p # _ \<Rightarrow> Some p)"

text \<open>
  What can happen to the provider: a login attempt, a logout, or a tracked event (with
  the user its callback captured), each with the clock value at that moment. A login
  that throws leaves the state as it was.
\<close>

datatype command = Login string | Logout | Track "profile option" event

fun step ::
  "(string \<rightharpoonup> string) \<Rightarrow> (string \<rightharpoonup> string) \<Rightarrow> ictx \<Rightarrow> int \<times> command \<Rightarrow> ictx" where
  "step u2c c2u st (now, Login uname) =
     (case login u2c c2u now st uname of Inl e \<Rightarrow> st | Inr st' \<Rightarrow> st')"
| "step u2c c2u st (now, Logout) = logout st"
| "step u2c c2u st (now, Track captured ev) = fst (trackInteraction captured st now ev)"

definition run ::
  "(string \<rightharpoonup> string) \<Rightarrow> (string \<rightharpoonup> string) \<Rightarrow> (int \<times> command) list \<Rightarrow> ictx" where
  "run u2c c2u cmds = foldl (step u2c c2u) initial_ictx cmds"

text \<open>A run of tracked events only, from any state; each with the user its callback captured.\<close>

definition track_all :: "ictx \<Rightarrow> (profile option \<times> int \<times> event) list \<Rightarrow> ictx" where
  "track_all st evs =
     foldl (\<lambda>s (captured, now, ev). fst (trackInteraction captured s now ev)) st evs"

text \<open>A history is newest first when the timestamps never increase along it.\<close>

definition newest_first :: "interaction list \<Rightarrow> bool" where
  "newest_first h = sorted_wrt (\<lambda>a b. timestamp a \<ge> timestamp b) h"

text \<open>The state right after the first generated customer logs in at clock value \<open>10^8\<close>.\<close>

definition after_login :: ictx where
  "after_login =
     run (usernameToCustomerId two_customers) (customerIdToUsername two_customers)
       [(100000000, Login ''citrus-otter-01'')]"

section \<open>Events the pages track\<close>

text \<open>
  Every call of \<open>trackInteraction\<close> in the pages, as a function from what the handler
  sees to the event it tracks; \<open>None\<close> when the handler returns without tracking.
\<close>

definition search_event :: "string \<Rightarrow> event" where
  "search_event term = no_event\<lparr>type_e := Some ''search'', query := Some term\<rparr>"

text \<open>ProductListPage: \<open>handleSearch\<close> and the debounced search effect.\<close>

definition handleSearch :: "string \<Rightarrow> event option" where
  "handleSearch q = (let term = trim q in if term \<noteq> [] then Some (search_event term) else None)"

definition autoSearch :: "string \<Rightarrow> string \<Rightarrow> event option" where
  "autoSearch q lastAutoSearch =
     (let term = trim q in
      if length term < 3 \<or> term = lastAutoSearch then None else Some (search_event term))"

definition handleProductClick :: "product \<Rightarrow> event option" where
  "handleProductClick p =
     Some (no_event\<lparr>type_e := Some ''view'', eventType := Some ''view'',
                     productId := Some (id_p p), source := Some ''product_list''\<rparr>)"

definition handleAdd_list :: "profile option \<Rightarrow> product \<Rightarrow> event option" where
  "handleAdd_list u p =
     (case u of
        None \<Rightarrow> None
      | Some _ \<Rightarrow>
          Some (no_event\<lparr>type_e := Some ''add_to_basket'', eventType := Some ''add_to_cart'',
                          productId := Some (id_p p), source := Some ''product_list''\<rparr>))"

text \<open>ProductDetailPage: the load effect and \<open>handleAdd\<close>, for the route parameter \<open>id\<close>.\<close>

definition detail_load :: "string \<Rightarrow> event option" where
  "detail_load i =
     Some (no_event\<lparr>type_e := Some ''view'', eventType := Some ''view'',
                     productId := Some i, source := Some ''product_detail''\<rparr>)"

definition handleAdd_detail :: "profile option \<Rightarrow> string \<Rightarrow> event option" where
  "handleAdd_detail u i =
     (case u of
        None \<Rightarrow> None
      | Some _ \<Rightarrow>
          Some (no_event\<lparr>type_e := Some ''add_to_basket'', eventType := Some ''add_to_cart'',
                          productId := Some i, source := Some ''product_detail''\<rparr>))"

text \<open>CheckoutPage: \<open>handleSubmit\<close>, given \<open>itemsArray\<close> and \<open>totalCost\<close> of the basket.\<close>

definition handleSubmit_checkout :: "entry list \<Rightarrow> jsnum \<Rightarrow> event option" where
  "handleSubmit_checkout itemsArray totalCost =
     Some (no_event\<lparr>type_e := Some ''purchase'', eventType := Some ''purchase'',
                     total_e := Some totalCost,
                     items_e := Some (map (\<lambda>e. (id_p (product_e e), quantity e, price (product_e e)))
                                          itemsArray)\<rparr>)"

text \<open>LoginPage: \<open>handleSubmit\<close> tracks only after \<open>login\<close> has succeeded.\<close>

definition handleSubmit_login :: "bool \<Rightarrow> string \<Rightarrow> event option" where
  "handleSubmit_login login_ok uname =
     (if login_ok then Some (no_event\<lparr>type_e := Some ''login'', username_e := Some uname\<rparr>)
      else None)"

text \<open>
  LoginPage \<open>handleSubmit\<close> from start to end, on the page rendered in state \<open>st\<close>:
  \<open>await login(username)\<close>, then \<open>await trackInteraction({type: "login", username})\<close> with
  the callback the page got when it rendered, which holds the user of \<open>st\<close>. A login
  that throws is caught by the page and nothing is tracked.
\<close>

definition handleSubmit_login_run ::
  "(string \<rightharpoonup> string) \<Rightarrow> (string \<rightharpoonup> string) \<Rightarrow> ictx \<Rightarrow> int \<Rightarrow> int \<Rightarrow> string \<Rightarrow>
     js_error + ictx \<times> interaction" where
  "handleSubmit_login_run u2c c2u st now_login now_track uname =
     (case login u2c c2u now_login st uname of
        Inl e \<Rightarrow> Inl e
      | Inr st' \<Rightarrow>
          Inr (trackInteraction (user st) st' now_track
                 (no_event\<lparr>type_e := Some ''login'', username_e := Some uname\<rparr>)))"

text \<open>HomePage: \<open>onProductClick\<close>.\<close>

definition onProductClick :: "product \<Rightarrow> event option" where
  "onProductClick p = Some (no_event\<lparr>type_e := Some ''hero_view'', productId := Some (id_p p)\<rparr>)"

datatype ui_action =
    Search string
  | AutoSearch string string
  | ProductClick product
  | AddFromList product
  | DetailLoad string
  | AddFromDetail string
  | CheckoutSubmit "entry list" jsnum
  | LoginSubmit bool string
  | HomeProductClick product

fun tracked :: "profile option \<Rightarrow> ui_action \<Rightarrow> event option" where
  "tracked u (Search q) = handleSearch q"
| "tracked u (AutoSearch q l) = autoSearch q l"
| "tracked u (ProductClick p) = handleProductClick p"
| "tracked u (AddFromList p) = handleAdd_list u p"
| "tracked u (DetailLoad i) = detail_load i"
| "tracked u (AddFromDetail i) = handleAdd_detail u i"
| "tracked u (CheckoutSubmit itemsArray totalCost) = handleSubmit_checkout itemsArray totalCost"
| "tracked u (LoginSubmit ok uname) = handleSubmit_login ok uname"
| "tracked u (HomeProductClick p) = onProductClick p"

text \<open>The event types of the interaction table: view, click, add_to_cart.\<close>

definition table_event_types :: "string set" where
  "table_event_types = {''view'', ''click'', ''add_to_cart''}"

text \<open>The payload sent when a shopper checks out the basket \<open>basket2\<close>.\<close>

definition checkout_payload :: interaction where
  "checkout_payload =
     snd (trackInteraction None initial_ictx 100000000
            (the (tracked None (CheckoutSubmit [\<lparr>product_e = apple, quantity = 2\<rparr>] (Fin 1)))))"

section \<open>Recommendation fetch (FrontEnd/src/services/api.js, fetchRecommendation)\<close>

text \<open>
  The three Vite environment variables that override the default table paths;
  \<open>RECO_PRODUCTS_PATH = import.meta.env.VITE_RECO_PRODUCTS_PATH || "data/products.csv"\<close>
  and likewise for the other two.
\<close>

record vite_env =
  VITE_RECO_PRODUCTS_PATH :: "string option"
  VITE_RECO_TRANSACTIONS_PATH :: "string option"
  VITE_RECO_CLICKSTREAM_PATH :: "string option"

definition or_default :: "string option \<Rightarrow> string \<Rightarrow> string" where
  "or_default v d = (case v of None \<Rightarrow> d | Some s \<Rightarrow> if s = [] then d else s)"

definition RECO_PRODUCTS_PATH :: "vite_env \<Rightarrow> string" where
  "RECO_PRODUCTS_PATH env = or_default (VITE_RECO_PRODUCTS_PATH env) ''data/products.csv''"

definition RECO_TRANSACTIONS_PATH :: "vite_env \<Rightarrow> string" where
  "RECO_TRANSACTIONS_PATH env = or_default (VITE_RECO_TRANSACTIONS_PATH env) ''data/transactions.csv''"

definition RECO_CLICKSTREAM_PATH :: "vite_env \<Rightarrow> string" where
  "RECO_CLICKSTREAM_PATH env = or_default (VITE_RECO_CLICKSTREAM_PATH env) ''data/clickstream.csv''"

text \<open>The JSON body posted to \<open>/recommend\<close>.\<close>

record reco_request =
  customer_id :: string
  products_path :: string
  transactions_path :: string
  clickstream_path :: string

text \<open>
  An HTTP response as \<open>fetchRecommendation\<close> reads it: the status and status text, what
  \<open>resp.text()\<close> resolves to, and what \<open>resp.json()\<close> resolves to (\<open>None\<close> when the body
  is not JSON, in which case \<open>resp.json()\<close> rejects with a SyntaxError). \<open>resp.ok\<close> holds
  for the statuses 200 to 299.
\<close>

record 'j response =
  status :: nat
  statusText :: string
  body_text :: string
  body_json :: "'j option"

definition ok :: "'j response \<Rightarrow> bool" where
  "ok resp = (200 \<le> status resp \<and> status resp \<le> 299)"

text \<open>\<open>fetch\<close> resolves with a response, or rejects with a TypeError when the request fails.\<close>

datatype 'j outcome = NetworkFailure | Response "'j response"

text \<open>
  \<open>fetchRecommendation({ customerId, productsPath, transactionsPath, clickstreamPath })\<close>
  against a backend. A path argument that is not given (\<open>None\<close>) takes its default. A
  thrown error is \<open>Inl\<close>, the returned value \<open>Inr\<close>.
\<close>

definition request_for ::
  "vite_env \<Rightarrow> string \<Rightarrow> string option \<Rightarrow> string option \<Rightarrow> string option \<Rightarrow> reco_request" where
  "request_for env cid productsPath transactionsPath clickstreamPath =
     \<lparr>customer_id = cid,
      products_path = (case productsPath of None \<Rightarrow> RECO_PRODUCTS_PATH env | Some p \<Rightarrow> p),
      transactions_path = (case transactionsPath of None \<Rightarrow> RECO_TRANSACTIONS_PATH env | Some p \<Rightarrow> p),
      clickstream_path = (case clickstreamPath of None \<Rightarrow> RECO_CLICKSTREAM_PATH env | Some p \<Rightarrow> p)\<rparr>"

definition fetchRecommendation ::
  "vite_env \<Rightarrow> (reco_request \<Rightarrow> 'j outcome) \<Rightarrow>
   string \<Rightarrow> string option \<Rightarrow> string option \<Rightarrow> string option \<Rightarrow> js_error + 'j" where
  "fetchRecommendation env backend cid productsPath transactionsPath clickstreamPath =
     (case backend (request_for env cid productsPath transactionsPath clickstreamPath) of
        NetworkFailure \<Rightarrow> Inl (TypeError ''Failed to fetch'')
      | Response resp \<Rightarrow>
          if \<not> ok resp then
            (let detail = body_text resp in
             Inl (Error (''Recommendation API failed ('' @ String (status resp) @ ''): '' @
                         (if detail \<noteq> [] then detail else statusText resp))))
          else (case body_json resp of
                  None \<Rightarrow> Inl (SyntaxError ''Unexpected token'')
                | Some j \<Rightarrow> Inr j))"

text \<open>
  Two backends for instantiating the theorems: one that answers 404 (the documented answer
  of \<open>POST /recommend\<close> when there is no recommendation), one that answers 200 with a JSON
  body.
\<close>

definition no_env :: vite_env where
  "no_env = \<lparr>VITE_RECO_PRODUCTS_PATH = None, VITE_RECO_TRANSACTIONS_PATH = None,
              VITE_RECO_CLICKSTREAM_PATH = None\<rparr>"

definition backend_404 :: "reco_request \<Rightarrow> string outcome" where
  "backend_404 req =
     Response \<lparr>status = 404, statusText = ''Not Found'',
               body_text = ''No recommendation available'', body_json = None\<rparr>"

definition backend_200 :: "reco_request \<Rightarrow> string outcome" where
  "backend_200 req =
     Response \<lparr>status = 200, statusText = ''OK'',
               body_text = ''P010'', body_json = Some (customer_id req @ '':P010'')\<rparr>"

section \<open>Catalogue generator (FrontEnd/scripts/csvToProducts.js)\<close>

text \<open>
  Text is modelled as ASCII: \<open>toLowerCase\<close> maps A-Z only, and the line terminators that
  \<open>.\<close> does not match are line feed and carriage return.
\<close>

definition is_digit :: "char \<Rightarrow> bool" where
  "is_digit c = (48 \<le> (of_char c :: nat) \<and> (of_char c :: nat) \<le> 57)"

definition is_lower :: "char \<Rightarrow> bool" where
  "is_lower c = (97 \<le> (of_char c :: nat) \<and> (of_char c :: nat) \<le> 122)"

definition is_upper :: "char \<Rightarrow> bool" where
  "is_upper c = (65 \<le> (of_char c :: nat) \<and> (of_char c :: nat) \<le> 90)"

definition toLowerCase :: "string \<Rightarrow> string" where
  "toLowerCase s = map (\<lambda>c. if is_upper c then char_of ((of_char c :: nat) + 32) else c) s"

definition digits_val :: "string \<Rightarrow> nat" where
  "digits_val ds = foldl (\<lambda>a c. 10 * a + ((of_char c :: nat) - 48)) 0 ds"

text \<open>An optional sign in front of a numeric literal: whether it is negative, and the rest.\<close>

definition split_sign :: "string \<Rightarrow> bool \<times> string" where
  "split_sign s =
     (case s of
        [] \<Rightarrow> (False, [])
      | c # r \<Rightarrow> if c = CHR ''-'' then (True, r)
                 else if c = CHR ''+'' then (False, r)
                 else (False, s))"

text \<open>\<open>Number.parseInt(s, 10)\<close>; \<open>None\<close> is \<open>NaN\<close>.\<close>

definition parseInt :: "string \<Rightarrow> int option" where
  "parseInt s =
     (let (neg, u) = split_sign (dropWhile is_space s);
          ds = takeWhile is_digit u
      in if ds = [] then None
         else Some (if neg then - int (digits_val ds) else int (digits_val ds)))"

text \<open>
  \<open>Number.parseFloat(s)\<close>: leading white space, an optional sign, then \<open>Infinity\<close> or the
  longest decimal literal (digits, an optional fraction, an optional exponent that has
  digits). The finite value is the exact rational; rounding to a double is not modelled.
\<close>

definition exponent_part :: "string \<Rightarrow> int" where
  "exponent_part s =
     (case s of
        [] \<Rightarrow> 0
      | c # r \<Rightarrow>
          if c = CHR ''e'' \<or> c = CHR ''E'' then
            (let (neg, d) = split_sign r; ds = takeWhile is_digit d
             in if ds = [] then 0
                else if neg then - int (digits_val ds) else int (digits_val ds))
          else 0)"

definition parseFloat :: "string \<Rightarrow> jsnum" where
  "parseFloat s =
     (let (neg, u) = split_sign (dropWhile is_space s) in
      if take 8 u = ''Infinity'' then (if neg then NegInf else PosInf)
      else
        (let ip = takeWhile is_digit u;
             r1 = dropWhile is_digit u;
             (fp, r2) = (case r1 of
                           [] \<Rightarrow> ([], [])
                         | c # r \<Rightarrow> if c = CHR ''.''
                                    then (takeWhile is_digit r, dropWhile is_digit r)
                                    else ([], r1))
         in if ip = [] \<and> fp = [] then NaN
            else
              (let mant = (of_nat (digits_val (ip @ fp)) :: rat) / 10 ^ length fp;
                   ex = exponent_part r2;
                   v = (if 0 \<le> ex then mant * 10 ^ nat ex else mant / 10 ^ nat (- ex))
               in Fin (if neg then - v else v))))"

text \<open>
  \<open>splitCsvLine\<close>: the line is split at every comma that has an even number of double
  quotes after it; then a cell that is wrapped in double quotes loses them.
\<close>

definition dquote :: char where
  "dquote = CHR 0x22"

fun cons_first :: "char \<Rightarrow> string list \<Rightarrow> string list" where
  "cons_first c [] = [[c]]"
| "cons_first c (x # xs) = (c # x) # xs"

fun split_cells :: "string \<Rightarrow> string list" where
  "split_cells [] = [[]]"
| "split_cells (c # cs) =
     (if c = CHR '','' \<and> even (count_list cs dquote) then [] # split_cells cs
      else cons_first c (split_cells cs))"

definition unquote :: "string \<Rightarrow> string" where
  "unquote cell =
     (if 2 \<le> length cell \<and> hd cell = dquote \<and> last cell = dquote \<and>
         list_all (\<lambda>c. c \<noteq> CHR 0x0A \<and> c \<noteq> CHR 0x0D) (butlast (tl cell))
      then butlast (tl cell) else cell)"

definition splitCsvLine :: "string \<Rightarrow> string list" where
  "splitCsvLine line = map unquote (split_cells line)"

text \<open>
  \<open>slugify\<close>: lower case, every run of characters other than a-z and 0-9 becomes one
  dash, and dashes at both ends are removed.
\<close>

fun dash_runs :: "bool \<Rightarrow> string \<Rightarrow> string" where
  "dash_runs in_run [] = []"
| "dash_runs in_run (c # cs) =
     (if is_lower c \<or> is_digit c then c # dash_runs False cs
      else if in_run then dash_runs True cs
      else CHR ''-'' # dash_runs True cs)"

definition slugify :: "string \<Rightarrow> string" where
  "slugify text =
     rev (dropWhile (\<lambda>c. c = CHR ''-'')
            (rev (dropWhile (\<lambda>c. c = CHR ''-'') (dash_runs False (toLowerCase text)))))"

text \<open>\<open>s.split(/\r?\n/)\<close>.\<close>

fun split_lines :: "string \<Rightarrow> string list" where
  "split_lines [] = [[]]"
| "split_lines [c] = (if c = CHR 0x0A then [[], []] else [[c]])"
| "split_lines (c # d # cs) =
     (if c = CHR 0x0A then [] # split_lines (d # cs)
      else if c = CHR 0x0D \<and> d = CHR 0x0A then [] # split_lines cs
      else cons_first c (split_lines (d # cs)))"

text \<open>
  The object built for one row: each header is paired with the cell at its index, or
  with the empty string when the row has no cell there (\<open>cells[idx] ?? ""\<close>).
\<close>

definition row_entries :: "string list \<Rightarrow> string list \<Rightarrow> (string \<times> string) list" where
  "row_entries headers cells =
     map (\<lambda>idx. (headers ! idx, if idx < length cells then cells ! idx else []))
         [0..<length headers]"

definition record_of :: "string list \<Rightarrow> string list \<Rightarrow> (string \<rightharpoonup> string)" where
  "record_of headers cells = fromEntries (row_entries headers cells)"

text \<open>\<open>a || b\<close> on a property that is a string or undefined: undefined and "" are falsy.\<close>

definition truthy :: "string option \<Rightarrow> bool" where
  "truthy v = (case v of None \<Rightarrow> False | Some s \<Rightarrow> s \<noteq> [])"

text \<open>
  The product built from one row's object. \<open>slugify(undefined)\<close>, reached when neither
  \<open>sku_id\<close> nor \<open>id\<close> is truthy and there is no \<open>product_name\<close>, throws a TypeError.
  \<open>Number.parseFloat(undefined)\<close> parses the text "undefined".
\<close>

definition product_of_record :: "(string \<rightharpoonup> string) \<Rightarrow> js_error + product" where
  "product_of_record r =
     (let sku =
        (if truthy (r ''sku_id'') then Inr (the (r ''sku_id''))
         else if truthy (r ''id'') then Inr (the (r ''id''))
         else (case r ''product_name'' of
                 None \<Rightarrow> Inl (TypeError ''Cannot read properties of undefined (reading toLowerCase)'')
               | Some n \<Rightarrow> Inr (slugify n)))
      in case sku of
           Inl e \<Rightarrow> Inl e
         | Inr s \<Rightarrow>
             Inr \<lparr>id_p = s,
                  name = r ''product_name'',
                  description = r ''description'',
                  brand = r ''brand'',
                  category = r ''category'',
                  subCategory = r ''sub_category'',
                  price = (case parseFloat (case r ''price'' of None \<Rightarrow> ''undefined'' | Some p \<Rightarrow> p) of
                             NaN \<Rightarrow> Fin 0
                           | Fin v \<Rightarrow> Fin v
                           | PosInf \<Rightarrow> PosInf
                           | NegInf \<Rightarrow> NegInf),
                  image_p = (if truthy (r ''image_url'') then the (r ''image_url'') else []),
                  stock = parseInt (if truthy (r ''stock_quantity'')
                                    then the (r ''stock_quantity'') else ''0'')\<rparr>)"

definition row_product :: "string list \<Rightarrow> string list \<Rightarrow> js_error + product" where
  "row_product headers cells = product_of_record (record_of headers cells)"

text \<open>Mapping over the rows; the first exception ends the script.\<close>

fun map_rows :: "('a \<Rightarrow> js_error + 'b) \<Rightarrow> 'a list \<Rightarrow> js_error + 'b list" where
  "map_rows f [] = Inr []"
| "map_rows f (x # xs) =
     (case f x of
        Inl e \<Rightarrow> Inl e
      | Inr y \<Rightarrow> (case map_rows f xs of Inl e \<Rightarrow> Inl e | Inr ys \<Rightarrow> Inr (y # ys)))"

definition csv_lines :: "string \<Rightarrow> string list" where
  "csv_lines csvRaw = split_lines (trim csvRaw)"

definition headers_of :: "string \<Rightarrow> string list" where
  "headers_of csvRaw = splitCsvLine (hd (csv_lines csvRaw))"

definition data_rows :: "string \<Rightarrow> string list" where
  "data_rows csvRaw = filter (\<lambda>line. trim line \<noteq> []) (tl (csv_lines csvRaw))"

definition products :: "string \<Rightarrow> js_error + product list" where
  "products csvRaw =
     map_rows (\<lambda>line. row_product (headers_of csvRaw) (splitCsvLine line)) (data_rows csvRaw)"



definition a1_product :: product where
  "a1_product = \<lparr>id_p = ''A1'', name = None, description = None, brand = None, category = None,
     subCategory = None, price = Fin (5 / 2), image_p = [], stock = Some 0\<rparr>"


definition csv_without_surplus :: string where
  "csv_without_surplus =
     ''sku_id,product_name,price,stock_quantity'' @ [CHR 0x0A] @ ''A1,Milk,2.50,7''"

text \<open>
  The same catalogue again, where the one cell of the surplus column is a lone double
  quote.
\<close>

definition csv_with_quote :: string where
  "csv_with_quote =
     ''sku_id,product_name,extra,price,stock_quantity'' @ [CHR 0x0A] @
     ''A1,Milk,'' @ [dquote] @ '',2.50,7''"





section \<open>Recommendation pipeline (personalisation_algo, Python sources not available)\<close>

text \<open>
  Modelled from the spec: the Python engine (scoring_engine.py, constraint_filter.py,
  selector.py, main.py) is missing from the sources, so every definition of this section
  follows sections 3, 4, 6 and 7 of the specification. Scores are real numbers: the
  arithmetic is exact, floating-point rounding is not modelled. A time is a real number
  of hours since some epoch.
\<close>

type_synonym time = real

text \<open>Modelled from the spec: \<open>hours_between\<close> of the missing scoring engine.\<close>

definition hours_between :: "time \<Rightarrow> time \<Rightarrow> real" where
  "hours_between a b = b - a"

text \<open>Modelled from the spec: \<open>days_between\<close> of the missing scoring engine.\<close>

definition days_between :: "time \<Rightarrow> time \<Rightarrow> real" where
  "days_between a b = (b - a) / 24"

text \<open>Modelled from the spec: event type of an InteractionEvent, one of view, click, add_to_cart.\<close>

datatype event_kind = View | Click | AddToCart

text \<open>
  Modelled from the spec: a row of the product table (Product). A category or a flag that
  is missing or malformed in the table is \<open>None\<close> (the data errors of section 7).
\<close>

record catalog_product =
  product_id :: string
  product_name :: string
  product_category :: "string option"
  is_discounted :: "bool option"
  in_stock :: "bool option"

text \<open>
  Modelled from the spec: a row of the transaction table (Transaction); the quantity is a
  count of units. A date that cannot be parsed, and a quantity or category that is
  missing, is \<open>None\<close>.
\<close>

record transaction =
  tx_customer_id :: string
  tx_product_id :: string
  date_of_transaction :: "time option"
  tx_quantity :: "nat option"
  tx_product_category :: "string option"


text \<open>
  Modelled from the spec: the configuration document of section 6: the five scoring
  weights, the parameters of each component, the constraint toggles and the selection
  parameters.
\<close>

record config =
  weight_category_affinity :: real
  weight_repurchase_likelihood :: real
  weight_clickstream_intent :: real
  weight_product_popularity :: real
  weight_exploration :: real
  decay_days :: real
  cycle_std_days :: real
  min_purchases :: nat
  recency_weight :: real
  decay_hours :: real
  event_weights :: "event_kind \<Rightarrow> real"
  customer_weight :: real
  frequency_weight :: real
  exclude_recent_purchases_days :: real
  exclude_discounted :: bool
  exclude_out_of_stock :: bool
  top_k :: nat
  shown_decay_hours :: real





subsection \<open>Scoring engine\<close>







text \<open>
  Modelled from the spec: the dates, in order, at which the customer bought the product;
  a purchase whose date cannot be parsed is skipped.
\<close>

definition purchase_dates :: "transaction list \<Rightarrow> string \<Rightarrow> string \<Rightarrow> time list" where
  "purchase_dates txs c pid =
     sort (List.map_filter date_of_transaction
             (filter (\<lambda>t. tx_customer_id t = c \<and> tx_product_id t = pid) txs))"

text \<open>Modelled from the spec: the deltas between consecutive purchase dates, in days.\<close>

fun deltas :: "time list \<Rightarrow> real list" where
  "deltas (a # b # xs) = days_between a b # deltas (b # xs)"
| "deltas xs = []"

text \<open>Modelled from the spec: the mean of a list of deltas.\<close>

definition mean :: "real list \<Rightarrow> real" where
  "mean xs = sum_list xs / real (length xs)"

text \<open>
  Modelled from the spec: repurchase likelihood. It is 0 for a product bought fewer than
  \<open>min_purchases\<close> times (or fewer than twice, when there is no pair of consecutive
  purchases to take a cycle from); otherwise
  \<open>exp(-deviation^2 / (2 * cycle_std^2))\<close> with
  \<open>deviation = |days_since_last_purchase(now) - avg_cycle|\<close>, the average cycle and the
  time since the last purchase both in days.
\<close>

definition repurchase_likelihood ::
  "config \<Rightarrow> time \<Rightarrow> transaction list \<Rightarrow> string \<Rightarrow> catalog_product \<Rightarrow> real" where
  "repurchase_likelihood cfg now txs c p =
     (let ds = purchase_dates txs c (product_id p) in
      if length ds < min_purchases cfg \<or> length ds < 2 then 0
      else
        (let avg_cycle = mean (deltas ds);
             days_since_last_purchase = days_between (last ds) now;
             deviation = \<bar>days_since_last_purchase - avg_cycle\<bar>
         in exp (- (deviation\<^sup>2) / (2 * (cycle_std_days cfg)\<^sup>2))))"










text \<open>
  Modelled from the spec: the source of randomness of one invocation: the exploration
  draw of the candidate at each catalogue position, and the draw of the weighted
  sampling. The generator's contract is that every draw is uniform on the unit interval.
\<close>

record rng =
  explore_draw :: "nat \<Rightarrow> real"
  select_draw :: real

text \<open>
  Modelled from the spec: ScoreBreakdown, a mapping from component name to score, plus
  the weighted final score.
\<close>

record score_breakdown =
  components :: "string \<rightharpoonup> real"
  final_score :: real









text \<open>Modelled from the spec: a scored candidate.\<close>

record scored =
  candidate :: catalog_product
  breakdown :: score_breakdown


subsection \<open>Constraint filter\<close>



subsection \<open>Selector\<close>

text \<open>
  Modelled from the spec: the ShownRecord store, from customer id to the list of
  (product id, shown timestamp) entries.
\<close>

type_synonym shown_store = "string \<Rightarrow> (string \<times> time) list"

text \<open>
  Modelled from the spec: step 1, sort by final score descending (stable) and take the
  top \<open>top_k\<close>.
\<close>

definition top_candidates :: "config \<Rightarrow> scored list \<Rightarrow> scored list" where
  "top_candidates cfg scs = take (top_k cfg) (sort_key (\<lambda>s. - final_score (breakdown s)) scs)"

text \<open>Modelled from the spec: the product was shown to the customer within the last \<open>decay_hours\<close>.\<close>

definition recently_shown :: "config \<Rightarrow> time \<Rightarrow> shown_store \<Rightarrow> string \<Rightarrow> string \<Rightarrow> bool" where
  "recently_shown cfg now store c pid =
     list_ex (\<lambda>(q, ts). q = pid \<and> hours_between ts now \<le> shown_decay_hours cfg) (store c)"

text \<open>Modelled from the spec: step 2, the top-K minus the recently shown products.\<close>

definition eligible_minus_shown :: "config \<Rightarrow> time \<Rightarrow> shown_store \<Rightarrow> string \<Rightarrow> scored list \<Rightarrow> scored list" where
  "eligible_minus_shown cfg now store c scs =
     filter (\<lambda>s. \<not> recently_shown cfg now store c (product_id (candidate s))) (top_candidates cfg scs)"

text \<open>Modelled from the spec: step 2 with its fallback to the full top-K when nothing is left.\<close>

definition remaining :: "config \<Rightarrow> time \<Rightarrow> shown_store \<Rightarrow> string \<Rightarrow> scored list \<Rightarrow> scored list" where
  "remaining cfg now store c scs =
     (if eligible_minus_shown cfg now store c scs = [] then top_candidates cfg scs
      else eligible_minus_shown cfg now store c scs)"

text \<open>Modelled from the spec: the error a division by zero would raise.\<close>

datatype arith_error = ZeroDivisionError

text \<open>Modelled from the spec: division as the selector performs it, failing on a zero divisor.\<close>

definition divide_checked :: "real \<Rightarrow> real \<Rightarrow> arith_error + real" where
  "divide_checked a b = (if b = 0 then Inl ZeroDivisionError else Inr (a / b))"

text \<open>Modelled from the spec: collecting the results of the divisions, the first failure wins.\<close>

fun collect_results :: "(arith_error + real) list \<Rightarrow> arith_error + real list" where
  "collect_results [] = Inr []"
| "collect_results (r # rs) =
     (case r of
        Inl e \<Rightarrow> Inl e
      | Inr x \<Rightarrow> (case collect_results rs of Inl e \<Rightarrow> Inl e | Inr xs \<Rightarrow> Inr (x # xs)))"

text \<open>
  Modelled from the spec: step 3, the selection probabilities:
  \<open>probability(p_i) = score_i / sum of scores\<close>, and uniform over the candidates when all
  scores are 0.
\<close>

definition selection_probs :: "real list \<Rightarrow> arith_error + real list" where
  "selection_probs scores =
     (if list_all (\<lambda>s. s = 0) scores
      then collect_results (map (\<lambda>s. divide_checked 1 (real (length scores))) scores)
      else collect_results (map (\<lambda>s. divide_checked s (sum_list scores)) scores))"


text \<open>
  Modelled from the spec: sampling by a uniform draw \<open>u\<close> from the unit interval: the
  candidates partition the interval in order, each taking a stretch as long as its
  probability; the candidate in whose stretch \<open>u\<close> falls is selected (the last one also
  takes whatever is left).
\<close>

fun sample :: "('a \<times> real) list \<Rightarrow> real \<Rightarrow> 'a option" where
  "sample [] u = None"
| "sample [(x, p)] u = Some x"
| "sample ((x, p) # y # ys) u = (if u < p then Some x else sample (y # ys) (u - p))"

text \<open>
  Modelled from the spec: the selector. An empty filtered set gives the explicit absence
  \<open>None\<close> and leaves the store as it is. Otherwise a candidate is drawn from the remaining
  ones, and (step 4) its product id and the current timestamp are appended to the
  customer's ShownRecord before returning.
\<close>

definition selector ::
  "config \<Rightarrow> shown_store \<Rightarrow> real \<Rightarrow> string \<Rightarrow> time \<Rightarrow> scored list \<Rightarrow>
   arith_error + (scored option \<times> shown_store)" where
  "selector cfg store u c now scs =
     (if scs = [] then Inr (None, store)
      else
        (let rem = remaining cfg now store c scs in
         case selection_probs (map (\<lambda>s. final_score (breakdown s)) rem) of
           Inl e \<Rightarrow> Inl e
         | Inr probs \<Rightarrow>
             (case sample (zip rem probs) u of
                None \<Rightarrow> Inr (None, store)
              | Some s \<Rightarrow>
                  Inr (Some s, store(c := store c @ [(product_id (candidate s), now)])))))"

subsection \<open>Orchestrator\<close>

text \<open>Modelled from the spec: the Recommendation record of section 3.\<close>

record recommendation =
  rec_customer_id :: string
  recommended_product_id :: string
  rec_product_name :: string
  rec_product_category :: "string option"
  score :: score_breakdown
  rank :: nat
  total_candidates :: nat
  rec_timestamp :: time



subsection \<open>Example inputs\<close>

text \<open>Modelled from the spec: the default configuration of the design document.\<close>

definition default_config :: config where
  "default_config =
     \<lparr>weight_category_affinity = 3 / 10, weight_repurchase_likelihood = 1 / 4,
      weight_clickstream_intent = 1 / 4, weight_product_popularity = 1 / 10,
      weight_exploration = 1 / 10,
      decay_days = 90, cycle_std_days = 7, min_purchases = 2,
      recency_weight = 7 / 10, decay_hours = 24,
      event_weights = (\<lambda>k. case k of View \<Rightarrow> 3 / 10 | Click \<Rightarrow> 1 / 2 | AddToCart \<Rightarrow> 1),
      customer_weight = 6 / 10, frequency_weight = 4 / 10,
      exclude_recent_purchases_days = 14, exclude_discounted = True, exclude_out_of_stock = True,
      top_k = 20, shown_decay_hours = 24\<rparr>"

text \<open>Modelled from the spec: a catalogue of two products that pass every filter rule.\<close>

definition milk :: catalog_product where
  "milk = \<lparr>product_id = ''P001'', product_name = ''Organic Milk 1L'', product_category = Some ''dairy'',
           is_discounted = Some False, in_stock = Some True\<rparr>"

text \<open>Modelled from the spec: the second product of that catalogue.\<close>

definition tea :: catalog_product where
  "tea = \<lparr>product_id = ''P010'', product_name = ''Green Tea 25pk'', product_category = Some ''beverages'',
          is_discounted = Some False, in_stock = Some True\<rparr>"

text \<open>Modelled from the spec: a generator whose draws are all one half.\<close>

definition half_rng :: rng where
  "half_rng = \<lparr>explore_draw = (\<lambda>i. 1 / 2), select_draw = 1 / 2\<rparr>"

text \<open>Modelled from the spec: the empty ShownRecord store.\<close>

definition empty_store :: shown_store where
  "empty_store = (\<lambda>c. [])"

text \<open>
  Modelled from the spec: the breakdown of a candidate for a customer without any
  history when the exploration draw is one half, under the default configuration.
\<close>

definition cold_breakdown :: score_breakdown where
  "cold_breakdown =
     \<lparr>components = [''category_affinity'' \<mapsto> 0, ''repurchase_likelihood'' \<mapsto> 0,
                     ''clickstream_intent'' \<mapsto> 0, ''product_popularity'' \<mapsto> 0,
                     ''exploration'' \<mapsto> 1 / 2],
      final_score = 1 / 20\<rparr>"

text \<open>Modelled from the spec: the milk scored for such a customer.\<close>

definition scored_milk :: scored where
  "scored_milk = \<lparr>candidate = milk, breakdown = cold_breakdown\<rparr>"

text \<open>Modelled from the spec: the tea scored for such a customer.\<close>

definition scored_tea :: scored where
  "scored_tea = \<lparr>candidate = tea, breakdown = cold_breakdown\<rparr>"

text \<open>Modelled from the spec: the scoring engine's output for such a customer.\<close>

definition two_scored :: "scored list" where
  "two_scored = [scored_milk, scored_tea]"

text \<open>Modelled from the spec: the store after the tea has been shown to customer C001 at time 0.\<close>

definition store_after_tea :: shown_store where
  "store_after_tea = empty_store(''C001'' := empty_store ''C001'' @ [(''P010'', 0)])"

text \<open>
  Modelled from the spec: a purchase history; the last purchase has a date that could not
  be parsed.
\<close>

definition example_txs :: "transaction list" where
  "example_txs =
     [\<lparr>tx_customer_id = ''C001'', tx_product_id = ''P001'', date_of_transaction = Some (- 720),
       tx_quantity = Some 2, tx_product_category = Some ''dairy''\<rparr>,
      \<lparr>tx_customer_id = ''C001'', tx_product_id = ''P001'', date_of_transaction = Some (- 384),
       tx_quantity = Some 1, tx_product_category = Some ''dairy''\<rparr>,
      \<lparr>tx_customer_id = ''C002'', tx_product_id = ''P010'', date_of_transaction = Some (- 48),
       tx_quantity = Some 3, tx_product_category = Some ''beverages''\<rparr>,
      \<lparr>tx_customer_id = ''C001'', tx_product_id = ''P001'', date_of_transaction = None,
       tx_quantity = Some 1, tx_product_category = Some ''dairy''\<rparr>]"












section \<open>Objects built from entries\<close>

lemma foldl_upd_map_of:
  "foldl (\<lambda>m (k, v). m(k \<mapsto> v)) m ps = m ++ map_of (rev ps)"
proof (induction ps arbitrary: m)
  case Nil
  show ?case by simp
next
  case (Cons p ps)
  obtain k v where p: "p = (k, v)" by (cases p)
  have "foldl (\<lambda>m (k, v). m(k \<mapsto> v)) m (p # ps) = foldl (\<lambda>m (k, v). m(k \<mapsto> v)) (m(k \<mapsto> v)) ps"
    by (simp add: p)
  also have "\<dots> = m(k \<mapsto> v) ++ map_of (rev ps)"
    by (rule Cons.IH)
  also have "\<dots> = m ++ map_of (rev (p # ps))"
    by (auto simp: p fun_eq_iff map_add_def split: option.splits)
  finally show ?case .
qed

lemma fromEntries_Some_iff:
  assumes "distinct (map fst ps)"
  shows "fromEntries ps k = Some v \<longleftrightarrow> (k, v) \<in> set ps"
proof -
  have "fromEntries ps = map_of (rev ps)"
    by (simp add: fromEntries_def foldl_upd_map_of)
  moreover have "distinct (map fst (rev ps))"
    using assms by (simp add: rev_map [symmetric])
  ultimately show ?thesis by simp
qed

section \<open>Customer map generator: the mapping is a bijection\<close>

lemma length_randomNamePool: "length randomNamePool = 100"
  by (simp add: randomNamePool_def adjectives_def nouns_def length_concat)

lemma distinct_randomNamePool: "distinct randomNamePool"
  by code_simp

lemma digit_char_inj: "a < 10 \<Longrightarrow> b < 10 \<Longrightarrow> digit_char a = digit_char b \<Longrightarrow> a = b"
  by (simp add: digit_char_def char_of_eq_iff take_bit_nat_eq_self)

lemma digit_char_0: "digit_char 0 = CHR ''0''"
  by code_simp

lemma String_1: "n < 10 \<Longrightarrow> String n = [digit_char n]"
  by (subst String.simps) simp

lemma String_2: "10 \<le> n \<Longrightarrow> n < 100 \<Longrightarrow> String n = [digit_char (n div 10), digit_char (n mod 10)]"
  by (subst String.simps) (simp add: String_1)

lemma String_3:
  "100 \<le> n \<Longrightarrow> n < 1000 \<Longrightarrow>
   String n = [digit_char (n div 100), digit_char (n div 10 mod 10), digit_char (n mod 10)]"
  by (subst String.simps) (simp add: String_2 div_mult2_eq [symmetric])


lemma padStart_3:
  assumes "n < 1000"
  shows "padStart 3 (CHR ''0'') (String n) =
         [digit_char (n div 100), digit_char (n div 10 mod 10), digit_char (n mod 10)]"
proof -
  consider "n < 10" | "10 \<le> n" "n < 100" | "100 \<le> n" using assms by linarith
  then show ?thesis
  proof cases
    case 1 then show ?thesis
      by (simp add: padStart_def String_1 digit_char_0 numeral_3_eq_3)
  next
    case 2 then show ?thesis
      by (simp add: padStart_def String_2 digit_char_0)
  next
    case 3 then show ?thesis using assms
      by (simp add: padStart_def String_3)
  qed
qed

lemma decompose_3: "(n::nat) = 100 * (n div 100) + 10 * (n div 10 mod 10) + n mod 10"
proof -
  have "n div 10 = 10 * (n div 10 div 10) + n div 10 mod 10" by simp
  moreover have "n div 10 div 10 = n div 100" by (simp add: div_mult2_eq [symmetric])
  moreover have "n = 10 * (n div 10) + n mod 10" by simp
  ultimately show ?thesis by linarith
qed

lemma padStart_3_inj:
  assumes a: "a < 1000" and b: "b < 1000"
    and eq: "padStart 3 (CHR ''0'') (String a) = padStart 3 (CHR ''0'') (String b)"
  shows "a = b"
proof -
  from eq have d: "digit_char (a div 100) = digit_char (b div 100)"
      "digit_char (a div 10 mod 10) = digit_char (b div 10 mod 10)"
      "digit_char (a mod 10) = digit_char (b mod 10)"
    by (simp_all add: padStart_3 [OF a] padStart_3 [OF b])
  have "a div 100 < 10" "b div 100 < 10" using a b by (simp_all add: less_mult_imp_div_less)
  then have 1: "a div 100 = b div 100" using d(1) by (rule digit_char_inj)
  have 2: "a div 10 mod 10 = b div 10 mod 10" using d(2) by (intro digit_char_inj) simp_all
  have 3: "a mod 10 = b mod 10" using d(3) by (intro digit_char_inj) simp_all
  show ?thesis using decompose_3 [of a] decompose_3 [of b] 1 2 3 by simp
qed

lemma customers_Inr:
  assumes "length ids \<le> 100"
  shows "customers ids =
         Inr (map (\<lambda>idx. \<lparr>id_c = ''C'' @ padStart 3 (CHR ''0'') (String (idx + 1)),
                               username = randomNamePool ! idx\<rparr>) [0..<length ids])"
  using assms by (simp add: customers_def length_randomNamePool)

lemma distinct_generated_ids:
  assumes "n \<le> 100"
  shows "distinct (map (\<lambda>idx. ''C'' @ padStart 3 (CHR ''0'') (String (idx + 1))) [0..<n])"
proof -
  have "inj_on (\<lambda>idx. ''C'' @ padStart 3 (CHR ''0'') (String (idx + 1))) {0..<n}"
  proof (rule inj_onI)
    fix a b assume "a \<in> {0..<n}" "b \<in> {0..<n}"
      and "''C'' @ padStart 3 (CHR ''0'') (String (a + 1)) = ''C'' @ padStart 3 (CHR ''0'') (String (b + 1))"
    then have "a + 1 < 1000" "b + 1 < 1000"
      and "padStart 3 (CHR ''0'') (String (a + 1)) = padStart 3 (CHR ''0'') (String (b + 1))"
      using assms by simp_all
    then have "a + 1 = b + 1" by (rule padStart_3_inj)
    then show "a = b" by simp
  qed
  then show ?thesis by (simp add: distinct_map)
qed

lemma distinct_generated_usernames:
  assumes "n \<le> 100"
  shows "distinct (map (\<lambda>idx. randomNamePool ! idx) [0..<n])"
proof -
  have "map (\<lambda>idx. randomNamePool ! idx) [0..<n] = take n randomNamePool"
    using assms by (simp add: list_eq_iff_nth_eq length_randomNamePool)
  then show ?thesis by (simp add: distinct_randomNamePool)
qed

text \<open>
  C10. The generated customer mapping is a bijection. With more than 100 ids the script
  throws. With n \<open>\<le>\<close> 100 ids it produces n customers whose ids are C001 .. C<n> in order,
  pairwise distinct, with pairwise distinct usernames; \<open>usernameToCustomerId\<close> and
  \<open>customerIdToUsername\<close> are inverse to each other, and composing one after the other is
  the identity on every generated username and customer id.
\<close>

theorem customer_map_bijection:
  "(length ids > 100 \<longrightarrow> customers ids = Inl (Error ''Not enough generated usernames for all customer ids'')) \<and>
   (length ids \<le> 100 \<longrightarrow>
     (\<exists>cs. customers ids = Inr cs \<and>
        map id_c cs = map (\<lambda>k. ''C'' @ padStart 3 (CHR ''0'') (String k)) [1..<Suc (length ids)] \<and>
        distinct (map id_c cs) \<and> distinct (map username cs) \<and>
        (\<forall>u i. usernameToCustomerId cs u = Some i \<longleftrightarrow> customerIdToUsername cs i = Some u) \<and>
        (\<forall>c \<in> set cs.
           (customerIdToUsername cs \<circ>\<^sub>m usernameToCustomerId cs) (username c) = Some (username c) \<and>
           (usernameToCustomerId cs \<circ>\<^sub>m customerIdToUsername cs) (id_c c) = Some (id_c c))))"
proof (intro conjI impI)
  assume "length ids > 100"
  then show "customers ids = Inl (Error ''Not enough generated usernames for all customer ids'')"
    by (simp add: customers_def length_randomNamePool)
next
  assume n: "length ids \<le> 100"
  define cs where "cs = map (\<lambda>idx. \<lparr>id_c = ''C'' @ padStart 3 (CHR ''0'') (String (idx + 1)),
                               username = randomNamePool ! idx\<rparr>) [0..<length ids]"
  have run: "customers ids = Inr cs"
    unfolding cs_def using n by (rule customers_Inr)
  have ids_eq: "map id_c cs = map (\<lambda>idx. ''C'' @ padStart 3 (CHR ''0'') (String (idx + 1))) [0..<length ids]"
    by (simp add: cs_def comp_def)
  have names_eq: "map username cs = map (\<lambda>idx. randomNamePool ! idx) [0..<length ids]"
    by (simp add: cs_def comp_def)
  have shape: "map id_c cs = map (\<lambda>k. ''C'' @ padStart 3 (CHR ''0'') (String k)) [1..<Suc (length ids)]"
  proof -
    have "[1..<Suc (length ids)] = map Suc [0..<length ids]"
      by (simp only: One_nat_def map_Suc_upt)
    then show ?thesis
      unfolding ids_eq by (simp only: map_map comp_def Suc_eq_plus1)
  qed
  have d_ids: "distinct (map id_c cs)"
    unfolding ids_eq using n by (rule distinct_generated_ids)
  have d_names: "distinct (map username cs)"
    unfolding names_eq using n by (rule distinct_generated_usernames)
  have u2c: "usernameToCustomerId cs u = Some i \<longleftrightarrow> (\<exists>c \<in> set cs. username c = u \<and> id_c c = i)" for u i
    unfolding usernameToCustomerId_def
    by (subst fromEntries_Some_iff) (use d_names in \<open>auto simp: comp_def\<close>)
  have c2u: "customerIdToUsername cs i = Some u \<longleftrightarrow> (\<exists>c \<in> set cs. username c = u \<and> id_c c = i)" for u i
    unfolding customerIdToUsername_def
    by (subst fromEntries_Some_iff) (use d_ids in \<open>auto simp: comp_def\<close>)
  have inv: "\<forall>u i. usernameToCustomerId cs u = Some i \<longleftrightarrow> customerIdToUsername cs i = Some u"
    by (simp add: u2c c2u)
  have comp: "\<forall>c \<in> set cs.
           (customerIdToUsername cs \<circ>\<^sub>m usernameToCustomerId cs) (username c) = Some (username c) \<and>
           (usernameToCustomerId cs \<circ>\<^sub>m customerIdToUsername cs) (id_c c) = Some (id_c c)"
  proof
    fix c assume c: "c \<in> set cs"
    then have 1: "usernameToCustomerId cs (username c) = Some (id_c c)"
      and 2: "customerIdToUsername cs (id_c c) = Some (username c)"
      by (auto simp: u2c c2u)
    show "(customerIdToUsername cs \<circ>\<^sub>m usernameToCustomerId cs) (username c) = Some (username c) \<and>
          (usernameToCustomerId cs \<circ>\<^sub>m customerIdToUsername cs) (id_c c) = Some (id_c c)"
      by (simp add: map_comp_def 1 2)
  qed
  from run shape d_ids d_names inv comp
  show "\<exists>cs. customers ids = Inr cs \<and>
        map id_c cs = map (\<lambda>k. ''C'' @ padStart 3 (CHR ''0'') (String k)) [1..<Suc (length ids)] \<and>
        distinct (map id_c cs) \<and> distinct (map username cs) \<and>
        (\<forall>u i. usernameToCustomerId cs u = Some i \<longleftrightarrow> customerIdToUsername cs i = Some u) \<and>
        (\<forall>c \<in> set cs.
           (customerIdToUsername cs \<circ>\<^sub>m usernameToCustomerId cs) (username c) = Some (username c) \<and>
           (usernameToCustomerId cs \<circ>\<^sub>m customerIdToUsername cs) (id_c c) = Some (id_c c))"
    by blast
qed

lemma customers_two: "customers [''11'', ''42''] = Inr two_customers"
  by code_simp

theorem customer_map_bijection_witness:
  "length [''11'', ''42''] \<le> 100 \<and>
   customers [''11'', ''42''] = Inr two_customers \<and>
   map id_c two_customers = [''C001'', ''C002''] \<and>
   usernameToCustomerId two_customers ''citrus-sparrow-02'' = Some ''C002'' \<and>
   customerIdToUsername two_customers ''C002'' = Some ''citrus-sparrow-02'' \<and>
   (usernameToCustomerId two_customers \<circ>\<^sub>m customerIdToUsername two_customers) ''C002'' = Some ''C002''"
  using customer_map_bijection [of "[''11'', ''42'']"] customers_two
  by (simp add: two_customers_def usernameToCustomerId_def customerIdToUsername_def
        fromEntries_def map_comp_def)

section \<open>Basket reducer: the update action\<close>

lemma reducer_update_remove:
  "q \<le> 0 \<Longrightarrow> items (reducer state (Update_a pid q)) = (items state)(pid := None)"
  by simp

lemma reducer_update_set:
  "0 < q \<Longrightarrow> items state pid = Some current \<Longrightarrow>
   items (reducer state (Update_a pid q)) = (items state)(pid \<mapsto> current\<lparr>quantity := q\<rparr>)"
  by simp

lemma reducer_update_other:
  "other \<noteq> pid \<Longrightarrow> items (reducer state (Update_a pid q)) other = items state other"
  by (simp split: option.splits)

text \<open>
  C8. In the basket reducer an \<open>update\<close> action with quantity \<open>\<le> 0\<close> removes the
  entry of that product; an \<open>update\<close> with quantity \<open>> 0\<close> on a product that is in the
  basket sets the quantity of its entry to exactly the given value (and keeps its product);
  in both cases the entry of every other product id is unchanged. The basket page's
  \<open>handleQuantity\<close> is that update with the quantity clamped at 0.
\<close>

theorem reducer_update_frame:
  "(q \<le> 0 \<longrightarrow> items (reducer state (Update_a pid q)) pid = None) \<and>
   (0 < q \<longrightarrow> items state pid = Some current \<longrightarrow>
      items (reducer state (Update_a pid q)) pid = Some (current\<lparr>quantity := q\<rparr>)) \<and>
   (\<forall>other. other \<noteq> pid \<longrightarrow>
      items (reducer state (Update_a pid q)) other = items state other) \<and>
   handleQuantity state pid q = reducer state (Update_a pid (max 0 q))"
  using reducer_update_remove [of q state pid]
        reducer_update_set [of q state pid current]
        reducer_update_other [of _ pid state q]
  by (simp add: handleQuantity_def)

theorem reducer_update_frame_witness:
  "items (reducer basket2 (Update_a ''apple'' 0)) ''apple'' = None \<and>
   items (reducer basket2 (Update_a ''apple'' 0)) ''bread'' = Some \<lparr>product_e = bread, quantity = 1\<rparr> \<and>
   items (reducer basket2 (Update_a ''apple'' 5)) ''apple'' = Some \<lparr>product_e = apple, quantity = 5\<rparr> \<and>
   items (reducer basket2 (Update_a ''apple'' 5)) ''bread'' = Some \<lparr>product_e = bread, quantity = 1\<rparr>"
  using reducer_update_frame [of 0 basket2 "''apple''"]
        reducer_update_frame [of 5 basket2 "''apple''" "\<lparr>product_e = apple, quantity = 2\<rparr>"]
  by (simp add: basket2_def)

section \<open>Interaction history: bound, order and the last interaction\<close>

lemma interactions_track:
  "interactions (fst (trackInteraction captured st now ev)) =
     take 50 (payload captured now ev # interactions st)"
  by (simp add: trackInteraction_def Let_def)

lemma user_track: "user (fst (trackInteraction captured st now ev)) = user st"
  by (simp add: trackInteraction_def Let_def)

lemma length_login:
  "login u2c c2u now st uname = Inr st' \<Longrightarrow> length (interactions st') = 2"
  by (auto simp: login_def fetchUserProfile_def Let_def split: sum.splits option.splits if_splits)

lemma step_bound:
  assumes "length (interactions st) \<le> 50"
  shows "length (interactions (step u2c c2u st c)) \<le> 50"
proof -
  obtain now cmd where c: "c = (now, cmd)" by (cases c)
  show ?thesis
  proof (cases cmd)
    case (Login uname)
    show ?thesis
    proof (cases "login u2c c2u now st uname")
      case (Inl e)
      then show ?thesis using assms c Login by simp
    next
      case (Inr st')
      then show ?thesis using c Login length_login [OF Inr] by simp
    qed
  next
    case Logout
    then show ?thesis using c by (simp add: logout_def)
  next
    case (Track captured ev)
    then show ?thesis using c by (simp add: interactions_track)
  qed
qed

lemma foldl_step_bound:
  "length (interactions st) \<le> 50 \<Longrightarrow> length (interactions (foldl (step u2c c2u) st cmds)) \<le> 50"
  by (induction cmds arbitrary: st) (simp_all add: step_bound)

lemma run_bound: "length (interactions (run u2c c2u cmds)) \<le> 50"
  unfolding run_def by (rule foldl_step_bound) (simp add: initial_ictx_def)

lemma take_append_take: "take n (xs @ take n ys) = take n (xs @ ys)"
  by (simp add: take_append min_def)

lemma user_track_all: "user (track_all st evs) = user st"
  unfolding track_all_def
  by (induction evs arbitrary: st) (simp_all add: user_track split: prod.splits)

lemma interactions_track_all:
  "length (interactions st) \<le> 50 \<Longrightarrow>
   interactions (track_all st evs) =
   take 50 (rev (map (\<lambda>(captured, now, ev). payload captured now ev) evs) @ interactions st)"
proof (induction evs arbitrary: st)
  case Nil
  then show ?case by (simp add: track_all_def)
next
  case (Cons e evs)
  obtain captured now ev where e: "e = (captured, now, ev)" by (cases e)
  let ?st1 = "fst (trackInteraction captured st now ev)"
  let ?ps = "rev (map (\<lambda>(captured, now, ev). payload captured now ev) evs)"
  have "track_all st (e # evs) = track_all ?st1 evs"
    by (simp add: track_all_def e)
  moreover have "length (interactions ?st1) \<le> 50"
    by (simp add: interactions_track)
  ultimately have "interactions (track_all st (e # evs)) =
        take 50 (?ps @ take 50 (payload captured now ev # interactions st))"
    by (simp add: Cons.IH [of ?st1] interactions_track)
  also have "\<dots> = take 50 (?ps @ payload captured now ev # interactions st)"
    by (rule take_append_take)
  finally show ?case by (simp add: e)
qed

lemma lastInteraction_track:
  "lastInteraction (fst (trackInteraction captured st now ev)) =
     Some (snd (trackInteraction captured st now ev))"
  by (simp add: lastInteraction_def trackInteraction_def Let_def)

lemma lastInteraction_None: "lastInteraction st = None \<longleftrightarrow> interactions st = []"
  by (simp add: lastInteraction_def split: list.splits)

lemma first_customer_lookup:
  "usernameToCustomerId two_customers ''citrus-otter-01'' = Some ''C001''"
  "customerIdToUsername two_customers ''C001'' = Some ''citrus-otter-01''"
  by (simp_all add: usernameToCustomerId_def customerIdToUsername_def two_customers_def fromEntries_def)

lemma interactions_after_login:
  "interactions after_login =
     [event.extend (no_event\<lparr>type_e := Some ''view'', productId := Some ''sourdough''\<rparr>)
        (interaction.fields None 13600000),
      event.extend (no_event\<lparr>type_e := Some ''search'', query := Some ''berries''\<rparr>)
        (interaction.fields None 56800000)]"
  by (simp add: after_login_def run_def login_def fetchUserProfile_def first_customer_lookup Let_def)

text \<open>
  C9 as stated fails right after a login: the two entries that come with the profile
  are stored oldest first (24 hours old, then 12 hours old), so the history is not newest
  first and \<open>lastInteraction\<close> is the older of the two.
\<close>

theorem history_newest_first_counterexample:
  "map timestamp (interactions after_login) = [13600000, 56800000] \<and>
   \<not> newest_first (interactions after_login) \<and>
   map_option timestamp (lastInteraction after_login) = Some 13600000"
  by (simp add: interactions_after_login newest_first_def lastInteraction_def
        event.defs interaction.defs)

lemma user_after_login:
  "user after_login =
     Some \<lparr>email = ''citrus-otter-01@example.com'', name_pr = ''citrus-otter-01'',
           customerId = ''C001'', username_pr = ''citrus-otter-01'',
           previousInteractions = interactions after_login\<rparr>"
  by (simp add: after_login_def run_def login_def fetchUserProfile_def first_customer_lookup Let_def
        initial_ictx_def)

lemma initial_fields: "user initial_ictx = None" "interactions initial_ictx = []"
  by (simp_all add: initial_ictx_def)

lemma login_first:
  "login (usernameToCustomerId two_customers) (customerIdToUsername two_customers) 100000000
     initial_ictx ''citrus-otter-01'' = Inr after_login"
  by (simp add: after_login_def run_def login_def fetchUserProfile_def first_customer_lookup Let_def)

text \<open>
  C9 (amended). The interaction history never exceeds 50 entries in any state the provider
  reaches by logins, logouts and tracked events. Every \<open>trackInteraction\<close> call puts the new
  payload in front of the current history and keeps the first 50 entries; the payload is
  the event with the clock value and the user the callback captured when it was created
  (\<open>anonymous\<close> when that user was null), whatever the user of the state at the call. So
  after any run of tracked events the history is those payloads, latest first, followed by
  what was there before (at most 50 entries), cut to 50. \<open>lastInteraction\<close> is the payload
  of the latest tracked event right after it is tracked, always the head of the history,
  and null exactly when the history is empty. The login page tracks its login event with the
  callback of the render before the login, so that payload carries the user of that
  render.
\<close>

theorem interaction_history:
  "length (interactions (run u2c c2u cmds)) \<le> 50 \<and>
   interactions (fst (trackInteraction captured st now ev)) =
     take 50 (snd (trackInteraction captured st now ev) # interactions st) \<and>
   user (fst (trackInteraction captured st now ev)) = user st \<and>
   snd (trackInteraction captured st now ev) = payload captured now ev \<and>
   event.truncate (payload captured now ev) = ev \<and>
   timestamp (payload captured now ev) = now \<and>
   user_e (payload captured now ev) =
     Some (case captured of None \<Rightarrow> ''anonymous'' | Some p \<Rightarrow> email p) \<and>
   (length (interactions st) \<le> 50 \<longrightarrow>
      interactions (track_all st evs) =
        take 50 (rev (map (\<lambda>(captured, now, ev). payload captured now ev) evs) @ interactions st)) \<and>
   lastInteraction (fst (trackInteraction captured st now ev)) =
     Some (snd (trackInteraction captured st now ev)) \<and>
   lastInteraction st = (case interactions st of [] \<Rightarrow> None | p # _ \<Rightarrow> Some p) \<and>
   (lastInteraction st = None \<longleftrightarrow> interactions st = []) \<and>
   (login u2c c2u now_login st uname = Inr st' \<longrightarrow>
      handleSubmit_login_run u2c c2u st now_login now uname =
        Inr (st'\<lparr>interactions :=
                   take 50 (payload (user st) now
                              (no_event\<lparr>type_e := Some ''login'', username_e := Some uname\<rparr>) #
                            interactions st')\<rparr>,
             payload (user st) now (no_event\<lparr>type_e := Some ''login'', username_e := Some uname\<rparr>)))"
proof -
  have sent: "snd (trackInteraction captured st now ev) = payload captured now ev"
    by (simp add: trackInteraction_def Let_def)
  have fields: "event.truncate (payload captured now ev) = ev \<and>
      timestamp (payload captured now ev) = now \<and>
      user_e (payload captured now ev) =
        Some (case captured of None \<Rightarrow> ''anonymous'' | Some p \<Rightarrow> email p)"
    by (cases ev) (simp add: payload_def event.defs interaction.defs split: option.splits)
  have page: "login u2c c2u now_login st uname = Inr st' \<longrightarrow>
      handleSubmit_login_run u2c c2u st now_login now uname =
        Inr (st'\<lparr>interactions :=
                   take 50 (payload (user st) now
                              (no_event\<lparr>type_e := Some ''login'', username_e := Some uname\<rparr>) #
                            interactions st')\<rparr>,
             payload (user st) now (no_event\<lparr>type_e := Some ''login'', username_e := Some uname\<rparr>))"
    by (simp add: handleSubmit_login_run_def trackInteraction_def Let_def)
  from sent fields page show ?thesis
    using run_bound [of u2c c2u cmds] interactions_track [of captured st now ev]
      user_track [of captured st now ev]
      interactions_track_all [of st evs] lastInteraction_track [of captured st now ev]
      lastInteraction_None [of st]
    by (simp add: lastInteraction_def)
qed

theorem interaction_history_witness:
  "length (interactions (run (usernameToCustomerId two_customers) (customerIdToUsername two_customers)
      [(100000000, Login ''citrus-otter-01''),
       (100000005, Track (user after_login) (search_event ''tea''))])) \<le> 50 \<and>
   length (interactions after_login) \<le> 50 \<and>
   interactions (fst (trackInteraction (user after_login) after_login 100000005 (search_event ''tea''))) =
     payload (user after_login) 100000005 (search_event ''tea'') # interactions after_login \<and>
   interactions (track_all after_login
       [(None, 100000005, search_event ''tea''), (user after_login, 100000009, search_event ''jam'')]) =
     [payload (user after_login) 100000009 (search_event ''jam''),
      payload None 100000005 (search_event ''tea'')] @ interactions after_login \<and>
   lastInteraction (fst (trackInteraction None after_login 100000005 (search_event ''tea''))) =
     Some (payload None 100000005 (search_event ''tea'')) \<and>
   user_e (payload (user after_login) 100000005 (search_event ''tea'')) =
     Some ''citrus-otter-01@example.com'' \<and>
   lastInteraction initial_ictx = None \<and>
   login (usernameToCustomerId two_customers) (customerIdToUsername two_customers) 100000000
     initial_ictx ''citrus-otter-01'' = Inr after_login \<and>
   handleSubmit_login_run (usernameToCustomerId two_customers)
       (customerIdToUsername two_customers) initial_ictx 100000000 100000005 ''citrus-otter-01'' =
     Inr (after_login\<lparr>interactions :=
            payload None 100000005
              (no_event\<lparr>type_e := Some ''login'', username_e := Some ''citrus-otter-01''\<rparr>) #
            interactions after_login\<rparr>,
          payload None 100000005
            (no_event\<lparr>type_e := Some ''login'', username_e := Some ''citrus-otter-01''\<rparr>)) \<and>
   user_e (payload None 100000005
            (no_event\<lparr>type_e := Some ''login'', username_e := Some ''citrus-otter-01''\<rparr>)) =
     Some ''anonymous''"
  using interaction_history [of "usernameToCustomerId two_customers" "customerIdToUsername two_customers"
      "[(100000000, Login ''citrus-otter-01''),
        (100000005, Track (user after_login) (search_event ''tea''))]"
      "user after_login" after_login 100000005 "search_event ''tea''"
      "[(None, 100000005, search_event ''tea''), (user after_login, 100000009, search_event ''jam'')]"
      100000000 "''citrus-otter-01''" after_login]
    interaction_history [of "usernameToCustomerId two_customers" "customerIdToUsername two_customers"
      "[]" None after_login 100000005 "search_event ''tea''" "[]" 100000000 "''citrus-otter-01''"
      after_login]
    interaction_history [of "usernameToCustomerId two_customers" "customerIdToUsername two_customers"
      "[]" None initial_ictx 100000005
      "no_event\<lparr>type_e := Some ''login'', username_e := Some ''citrus-otter-01''\<rparr>" "[]"
      100000000 "''citrus-otter-01''" after_login]
  by (simp add: interactions_after_login user_after_login login_first initial_fields)

section \<open>Event types of the tracked events\<close>

text \<open>
  C7 as stated fails: the checkout page tracks an event whose event type is
  \<open>purchase\<close>, which is not one of view, click, add_to_cart.
\<close>

theorem event_type_counterexample:
  "tracked None (CheckoutSubmit [\<lparr>product_e = apple, quantity = 2\<rparr>] (Fin 1)) \<noteq> None \<and>
   eventType checkout_payload = Some ''purchase'' \<and>
   ''purchase'' \<notin> table_event_types"
  by (simp add: checkout_payload_def handleSubmit_checkout_def trackInteraction_def payload_def
        table_event_types_def event.defs interaction.defs no_event_def Let_def)

text \<open>
  C7 (amended). Every event a page tracks is sent to the interaction API with the event
  type the page gave it, and that is one of: \<open>view\<close> (type view), \<open>add_to_cart\<close> (type
  add_to_basket), \<open>purchase\<close> (type purchase), or none at all for the search, login and
  hero_view events. No page tracks a \<open>click\<close>.
\<close>

theorem tracked_event_types:
  assumes "tracked u a = Some ev"
  shows "eventType (snd (trackInteraction captured st now ev)) = eventType ev \<and>
         type_e (snd (trackInteraction captured st now ev)) = type_e ev \<and>
         (type_e ev, eventType ev) \<in>
           {(Some ''view'', Some ''view''),
            (Some ''add_to_basket'', Some ''add_to_cart''),
            (Some ''purchase'', Some ''purchase''),
            (Some ''search'', None), (Some ''login'', None), (Some ''hero_view'', None)}"
proof -
  have sent: "eventType (snd (trackInteraction captured st now ev)) = eventType ev \<and>
              type_e (snd (trackInteraction captured st now ev)) = type_e ev"
    by (simp add: trackInteraction_def payload_def Let_def event.defs interaction.defs)
  have kinds: "(type_e ev, eventType ev) \<in>
           {(Some ''view'', Some ''view''),
            (Some ''add_to_basket'', Some ''add_to_cart''),
            (Some ''purchase'', Some ''purchase''),
            (Some ''search'', None), (Some ''login'', None), (Some ''hero_view'', None)}"
  proof (cases a)
    case (Search q)
    then show ?thesis using assms
      by (auto simp: handleSearch_def search_event_def no_event_def Let_def split: if_splits)
  next
    case (AutoSearch q l)
    then show ?thesis using assms
      by (auto simp: autoSearch_def search_event_def no_event_def Let_def split: if_splits)
  next
    case (ProductClick p)
    then show ?thesis using assms by (auto simp: handleProductClick_def no_event_def)
  next
    case (AddFromList p)
    then show ?thesis using assms
      by (auto simp: handleAdd_list_def no_event_def split: option.splits)
  next
    case (DetailLoad i)
    then show ?thesis using assms by (auto simp: detail_load_def no_event_def)
  next
    case (AddFromDetail i)
    then show ?thesis using assms
      by (auto simp: handleAdd_detail_def no_event_def split: option.splits)
  next
    case (CheckoutSubmit itemsArray totalCost)
    then show ?thesis using assms by (auto simp: handleSubmit_checkout_def no_event_def)
  next
    case (LoginSubmit ok uname)
    then show ?thesis using assms
      by (auto simp: handleSubmit_login_def no_event_def split: if_splits)
  next
    case (HomeProductClick p)
    then show ?thesis using assms by (auto simp: onProductClick_def no_event_def)
  qed
  from sent kinds show ?thesis by blast
qed

theorem tracked_event_types_witness:
  "tracked None (ProductClick apple) = Some (the (handleProductClick apple)) \<and>
   eventType (snd (trackInteraction None initial_ictx 7 (the (handleProductClick apple)))) = Some ''view''"
  using tracked_event_types [of None "ProductClick apple" "the (handleProductClick apple)" None
      initial_ictx 7]
  by (simp add: handleProductClick_def no_event_def)

section \<open>Recommendation fetch: what is returned and what is thrown\<close>

lemma String_404: "String 404 = ''404''"
  by code_simp

text \<open>
  C5 as stated fails: when the backend answers 404, its answer for "no eligible product",
  \<open>fetchRecommendation\<close> does not return an absence value but throws an Error.
\<close>

theorem fetch_not_found_counterexample:
  "fetchRecommendation no_env backend_404 ''C001'' None None None =
     Inl (Error ''Recommendation API failed (404): No recommendation available'')"
  by (simp add: fetchRecommendation_def backend_404_def ok_def String_404)

text \<open>
  C5 (amended). The entry point posts one request: the customer id with the three table
  paths, each the override given or, when none is given, its default (the environment
  variable if set and not empty, else \<open>data/products.csv\<close>, \<open>data/transactions.csv\<close>,
  \<open>data/clickstream.csv\<close>). When the backend answers that request with a status from 200
  to 299, the decoded JSON body is returned (a body that is not JSON is a thrown
  SyntaxError). When it answers with any other status, the 404 for "no eligible product"
  included, an Error is thrown whose message carries the status and the response text
  (the status text when the body is empty); nothing is returned in that case. A request
  that fails is a thrown TypeError.
\<close>

theorem fetchRecommendation_result:
  assumes "backend
             \<lparr>customer_id = cid,
              products_path =
                (case pp of
                   Some p \<Rightarrow> p
                 | None \<Rightarrow>
                     (case VITE_RECO_PRODUCTS_PATH env of
                        None \<Rightarrow> ''data/products.csv''
                      | Some s \<Rightarrow> if s = [] then ''data/products.csv'' else s)),
              transactions_path =
                (case tp of
                   Some p \<Rightarrow> p
                 | None \<Rightarrow>
                     (case VITE_RECO_TRANSACTIONS_PATH env of
                        None \<Rightarrow> ''data/transactions.csv''
                      | Some s \<Rightarrow> if s = [] then ''data/transactions.csv'' else s)),
              clickstream_path =
                (case cp of
                   Some p \<Rightarrow> p
                 | None \<Rightarrow>
                     (case VITE_RECO_CLICKSTREAM_PATH env of
                        None \<Rightarrow> ''data/clickstream.csv''
                      | Some s \<Rightarrow> if s = [] then ''data/clickstream.csv'' else s))\<rparr> = out"
  shows "(out = NetworkFailure \<longrightarrow>
            fetchRecommendation env backend cid pp tp cp = Inl (TypeError ''Failed to fetch'')) \<and>
         (out = Response resp \<longrightarrow> 200 \<le> status resp \<longrightarrow> status resp \<le> 299 \<longrightarrow>
            body_json resp = Some j \<longrightarrow>
            fetchRecommendation env backend cid pp tp cp = Inr j) \<and>
         (out = Response resp \<longrightarrow> 200 \<le> status resp \<longrightarrow> status resp \<le> 299 \<longrightarrow>
            body_json resp = None \<longrightarrow>
            fetchRecommendation env backend cid pp tp cp = Inl (SyntaxError ''Unexpected token'')) \<and>
         (out = Response resp \<longrightarrow> (status resp < 200 \<or> 299 < status resp) \<longrightarrow>
            fetchRecommendation env backend cid pp tp cp =
              Inl (Error (''Recommendation API failed ('' @ String (status resp) @ ''): '' @
                          (if body_text resp \<noteq> [] then body_text resp else statusText resp))))"
proof -
  have "request_for env cid pp tp cp =
          \<lparr>customer_id = cid,
           products_path =
             (case pp of
                Some p \<Rightarrow> p
              | None \<Rightarrow>
                  (case VITE_RECO_PRODUCTS_PATH env of
                     None \<Rightarrow> ''data/products.csv''
                   | Some s \<Rightarrow> if s = [] then ''data/products.csv'' else s)),
           transactions_path =
             (case tp of
                Some p \<Rightarrow> p
              | None \<Rightarrow>
                  (case VITE_RECO_TRANSACTIONS_PATH env of
                     None \<Rightarrow> ''data/transactions.csv''
                   | Some s \<Rightarrow> if s = [] then ''data/transactions.csv'' else s)),
           clickstream_path =
             (case cp of
                Some p \<Rightarrow> p
              | None \<Rightarrow>
                  (case VITE_RECO_CLICKSTREAM_PATH env of
                     None \<Rightarrow> ''data/clickstream.csv''
                   | Some s \<Rightarrow> if s = [] then ''data/clickstream.csv'' else s))\<rparr>"
    by (simp add: request_for_def RECO_PRODUCTS_PATH_def RECO_TRANSACTIONS_PATH_def
          RECO_CLICKSTREAM_PATH_def or_default_def split: option.splits)
  with assms have "backend (request_for env cid pp tp cp) = out"
    by (simp only:)
  then show ?thesis
    by (auto simp: fetchRecommendation_def ok_def Let_def)
qed

theorem fetchRecommendation_result_witness:
  "fetchRecommendation no_env backend_200 ''C001'' None (Some ''t.csv'') None = Inr ''C001:P010'' \<and>
   fetchRecommendation no_env backend_404 ''C001'' None None None =
     Inl (Error (''Recommendation API failed ('' @ String 404 @ ''): No recommendation available''))"
  using fetchRecommendation_result [where backend = backend_200 and cid = "''C001''" and pp = None
          and env = no_env and tp = "Some ''t.csv''" and cp = None
          and out = "Response \<lparr>status = 200, statusText = ''OK'', body_text = ''P010'',
                      body_json = Some ''C001:P010''\<rparr>"
          and resp = "\<lparr>status = 200, statusText = ''OK'', body_text = ''P010'',
            body_json = Some ''C001:P010''\<rparr>" and j = "''C001:P010''"]
        fetchRecommendation_result [where backend = backend_404 and cid = "''C001''" and pp = None
          and env = no_env and tp = None and cp = None
          and out = "Response \<lparr>status = 404, statusText = ''Not Found'',
                      body_text = ''No recommendation available'', body_json = None\<rparr>"
          and resp = "\<lparr>status = 404, statusText = ''Not Found'',
            body_text = ''No recommendation available'', body_json = None\<rparr>" and j = "''x''"]
  by (simp add: backend_200_def backend_404_def no_env_def)

section \<open>Catalogue generator: surplus and missing columns\<close>



















section \<open>Catalogue generator: tables written as CSV text\<close>


























lemma row_missing_columns: "row_product [''sku_id'', ''price''] [''A1'', ''2.50''] = Inr a1_product"
  by code_simp






lemma products_without_surplus:
  "products csv_without_surplus =
     Inr [\<lparr>id_p = ''A1'', name = Some ''Milk'', description = None, brand = None, category = None,
           subCategory = None, price = Fin (5 / 2), image_p = [], stock = Some 7\<rparr>]"
  by code_simp

text \<open>
  Why the surplus column has to leave the splitting of the lines alone: a surplus cell that
  is a lone double quote makes the commas in front of it part of the first cell, and the
  product built from the line is another one.
\<close>

lemma products_with_quote:
  "products csv_with_quote =
     Inr [\<lparr>id_p = ''A1,Milk,'' @ [dquote], name = Some ''2.50'', description = None, brand = None,
           category = None, subCategory = None, price = Fin 0, image_p = [], stock = Some 0\<rparr>]"
  by code_simp






section \<open>Recommendation pipeline: component scores\<close>








lemma sum_list_nonneg_real:
  fixes f :: "'a \<Rightarrow> real"
  assumes "\<And>x. x \<in> set xs \<Longrightarrow> 0 \<le> f x"
  shows "0 \<le> sum_list (map f xs)"
  using assms by (induction xs) auto

subsection \<open>Category affinity\<close>








subsection \<open>Repurchase likelihood\<close>




subsection \<open>Clickstream intent\<close>






subsection \<open>Popularity\<close>




subsection \<open>Breakdown of a candidate\<close>










section \<open>Recommendation pipeline: selector\<close>


lemma top_candidates_nonempty:
  assumes "scs \<noteq> []" "0 < top_k cfg"
  shows "top_candidates cfg scs \<noteq> []"
proof -
  have "length (sort_key (\<lambda>s. - final_score (breakdown s)) scs) = length scs" by simp
  then have "sort_key (\<lambda>s. - final_score (breakdown s)) scs \<noteq> []"
    using assms(1) by (metis length_0_conv)
  then show ?thesis using assms(2) by (simp add: top_candidates_def)
qed


lemma remaining_nonempty:
  assumes "scs \<noteq> []" "0 < top_k cfg"
  shows "remaining cfg now store c scs \<noteq> []"
  using top_candidates_nonempty [OF assms] by (simp add: remaining_def)

lemma remaining_fresh:
  assumes "eligible_minus_shown cfg now store c scs \<noteq> []"
    and "s \<in> set (remaining cfg now store c scs)"
  shows "\<not> recently_shown cfg now store c (product_id (candidate s))"
  using assms by (simp add: remaining_def eligible_minus_shown_def)

lemma collect_map_divide:
  assumes "b \<noteq> 0"
  shows "collect_results (map (\<lambda>s. divide_checked (f s) b) xs) = Inr (map (\<lambda>s. f s / b) xs)"
  using assms by (induction xs) (simp_all add: divide_checked_def)

lemma selection_probs_uniform:
  assumes "list_all (\<lambda>s. s = 0) scores"
  shows "selection_probs scores = Inr (map (\<lambda>s. 1 / real (length scores)) scores)"
proof (cases scores)
  case Nil
  then show ?thesis by (simp add: selection_probs_def)
next
  case (Cons x xs)
  then have "real (length scores) \<noteq> 0" by simp
  then show ?thesis
    using assms by (simp add: selection_probs_def collect_map_divide del: of_nat_eq_0_iff)
qed

lemma sum_list_pos_real:
  fixes xs :: "real list"
  assumes "\<And>x. x \<in> set xs \<Longrightarrow> 0 \<le> x" and "\<not> list_all (\<lambda>s. s = 0) xs"
  shows "0 < sum_list xs"
  using assms
proof (induction xs)
  case Nil
  then show ?case by simp
next
  case (Cons x xs)
  have x: "0 \<le> x" using Cons.prems(1) by simp
  have rest: "0 \<le> sum_list xs"
    using Cons.prems(1) sum_list_nonneg_real [of xs "\<lambda>x. x"] by simp
  show ?case
  proof (cases "x = 0")
    case True
    then have "\<not> list_all (\<lambda>s. s = 0) xs" using Cons.prems(2) by simp
    then have "0 < sum_list xs" using Cons.IH Cons.prems(1) by simp
    then show ?thesis using True by simp
  next
    case False
    then have "0 < x" using x by simp
    then show ?thesis using rest by simp
  qed
qed

lemma selection_probs_weighted:
  assumes "\<And>x. x \<in> set scores \<Longrightarrow> 0 \<le> x" and "\<not> list_all (\<lambda>s. s = 0) scores"
  shows "selection_probs scores = Inr (map (\<lambda>s. s / sum_list scores) scores)"
proof -
  have "sum_list scores \<noteq> 0" using sum_list_pos_real [OF assms] by simp
  then show ?thesis using assms(2) by (simp add: selection_probs_def collect_map_divide)
qed



lemma sample_mem: "sample ys u = Some x \<Longrightarrow> x \<in> fst ` set ys"
  by (induction ys u rule: sample.induct) (auto split: if_splits)





lemma selection_probs_total:
  assumes "\<And>x. x \<in> set scores \<Longrightarrow> 0 \<le> x"
  shows "\<exists>probs. selection_probs scores = Inr probs \<and> length probs = length scores"
proof (cases "list_all (\<lambda>s. s = 0) scores")
  case True
  then show ?thesis by (simp add: selection_probs_uniform)
next
  case False
  then show ?thesis using assms by (simp add: selection_probs_weighted)
qed










lemma select_Some:
  assumes "selector cfg store u c now scs = Inr (Some s, store')"
  shows "s \<in> set (remaining cfg now store c scs) \<and>
         store' = store(c := store c @ [(product_id (candidate s), now)])"
  using assms
  by (auto simp: selector_def Let_def split: if_splits sum.splits option.splits
           dest!: sample_mem set_zip_leftD)









section \<open>Example runs\<close>



lemma half_rng_unit: "0 \<le> explore_draw half_rng i" "explore_draw half_rng i \<le> 1"
  by (simp_all add: half_rng_def)







lemma select_first:
  "selector default_config empty_store (1 / 2) ''C001'' 0 two_scored =
     Inr (Some scored_tea, store_after_tea)"
  by (simp add: selector_def remaining_def eligible_minus_shown_def top_candidates_def
        recently_shown_def selection_probs_def divide_checked_def two_scored_def scored_milk_def scored_tea_def
        cold_breakdown_def default_config_def empty_store_def store_after_tea_def milk_def
        tea_def Let_def)

lemma fresh_second:
  "eligible_minus_shown default_config 1 store_after_tea ''C001'' two_scored = [scored_milk]"
  by (simp add: eligible_minus_shown_def top_candidates_def recently_shown_def two_scored_def scored_milk_def scored_tea_def
        cold_breakdown_def default_config_def empty_store_def store_after_tea_def milk_def
        tea_def hours_between_def)

lemma select_second:
  "selector default_config store_after_tea (1 / 2) ''C001'' 1 two_scored =
     Inr (Some scored_milk,
          store_after_tea(''C001'' := store_after_tea ''C001'' @ [(''P001'', 1)]))"
  by (simp add: selector_def remaining_def eligible_minus_shown_def top_candidates_def
        recently_shown_def selection_probs_def divide_checked_def two_scored_def scored_milk_def scored_tea_def
        cold_breakdown_def default_config_def empty_store_def store_after_tea_def milk_def
        tea_def Let_def hours_between_def)


text \<open>
  Repurchase likelihood of the milk for customer C001: bought 30 and 16 days ago (a third
  purchase has no readable date), so the cycle is 14 days and the deviation 2 days.
\<close>

lemma repurchase_example:
  "purchase_dates example_txs ''C001'' ''P001'' = [- 720, - 384]"
  "repurchase_likelihood default_config 0 example_txs ''C001'' milk = exp (- (2 / 49))"
proof -
  show dates: "purchase_dates example_txs ''C001'' ''P001'' = [- 720, - 384]"
    by (simp add: purchase_dates_def example_txs_def)
  have "product_id milk = ''P001''" by (simp add: milk_def)
  then show "repurchase_likelihood default_config 0 example_txs ''C001'' milk = exp (- (2 / 49))"
    by (simp add: repurchase_likelihood_def dates mean_def days_between_def default_config_def
          Let_def power2_eq_square)
qed














section \<open>Recommendation pipeline: properties of an invocation\<close>








text \<open>
  C3. For every customer, when the selector has returned a product and is invoked again
  for the same customer within the shown-decay window, it does not return that product
  again unless the eligible-minus-shown candidate set of the second invocation is empty
  (the fallback case). This holds because the first invocation appended the selected
  product id with the current timestamp to that customer's ShownRecord (and changed no
  other customer's) before returning.
\<close>

theorem no_immediate_repeat:
  assumes first: "selector cfg store u1 c t1 scs1 = Inr (Some s1, store1)"
    and window: "hours_between t1 t2 \<le> shown_decay_hours cfg"
    and second: "selector cfg store1 u2 c t2 scs2 = Inr (Some s2, store2)"
    and fresh: "eligible_minus_shown cfg t2 store1 c scs2 \<noteq> []"
  shows "product_id (candidate s2) \<noteq> product_id (candidate s1) \<and>
         store1 c = store c @ [(product_id (candidate s1), t1)] \<and>
         (\<forall>d. d \<noteq> c \<longrightarrow> store1 d = store d)"
proof -
  from select_Some [OF first]
  have store1: "store1 = store(c := store c @ [(product_id (candidate s1), t1)])" by simp
  then have shown: "recently_shown cfg t2 store1 c (product_id (candidate s1))"
    using window by (simp add: recently_shown_def)
  from select_Some [OF second] have "s2 \<in> set (remaining cfg t2 store1 c scs2)" by simp
  from remaining_fresh [OF fresh this]
  have "\<not> recently_shown cfg t2 store1 c (product_id (candidate s2))" .
  then have "product_id (candidate s2) \<noteq> product_id (candidate s1)"
    using shown by auto
  then show ?thesis by (simp add: store1)
qed

theorem no_immediate_repeat_witness:
  "selector default_config empty_store (1 / 2) ''C001'' 0 two_scored =
     Inr (Some scored_tea, store_after_tea) \<and>
   hours_between 0 1 \<le> shown_decay_hours default_config \<and>
   selector default_config store_after_tea (1 / 2) ''C001'' 1 two_scored =
     Inr (Some scored_milk,
          store_after_tea(''C001'' := store_after_tea ''C001'' @ [(''P001'', 1)])) \<and>
   eligible_minus_shown default_config 1 store_after_tea ''C001'' two_scored \<noteq> [] \<and>
   product_id (candidate scored_milk) \<noteq> product_id (candidate scored_tea) \<and>
   store_after_tea ''C001'' = empty_store ''C001'' @ [(product_id (candidate scored_tea), 0)]"
proof -
  have window: "hours_between 0 1 \<le> shown_decay_hours default_config"
    by (simp add: hours_between_def default_config_def)
  have fresh: "eligible_minus_shown default_config 1 store_after_tea ''C001'' two_scored \<noteq> []"
    by (simp add: fresh_second)
  from no_immediate_repeat [OF select_first window select_second fresh]
  show ?thesis using select_first window select_second fresh by simp
qed









end
